theory Spec2Isabelle
  imports Complex_Main
begin

section \<open>The dispatch plot of \<^verbatim>\<open>dispatch_plot.py\<close>\<close>

text \<open>
  The script reads a table of hourly energy balances, cuts one day of 24 hours out of it
  and draws a stacked chart of that day. The model below follows the function
  \<^verbatim>\<open>create_dispatch_plot\<close> line by line. A column of the table and an
  array are lists of values, and an exception is a value of type \<open>error\<close>, returned
  in \<open>Inl\<close>.

  Energy values are real numbers. A floating-point column holds finite numbers only, no
  missing value and no infinity, and the rounding of a floating-point sum is not
  modelled: the theorems below
  state a sum the way the function computes it, from left to right, and use of addition
  only that adding zero changes nothing and that adding a number that is not negative
  does not make a number smaller, which hold of the rounded sums too. They do not cancel
  a term of a sum against a difference. A column of 64-bit integers is marked as such in
  the table, and the sum of two such columns wraps around.
\<close>

subsection \<open>Exceptions\<close>

text \<open>
  The exceptions the modelled statements raise: \<open>KeyError\<close> for a key a dictionary or a
  table does not have, \<open>ValueError\<close> for adding arrays of different lengths,
  \<open>FileNotFoundError\<close> for saving into a directory that does not exist.
\<close>

datatype error = KeyError string | ValueError | FileNotFoundError string

definition bind_err :: "error + 'a \<Rightarrow> ('a \<Rightarrow> error + 'b) \<Rightarrow> error + 'b" where
  "bind_err m f = (case m of Inl e \<Rightarrow> Inl e | Inr v \<Rightarrow> f v)"

subsection \<open>Dictionaries and tables\<close>

type_synonym 'v dict = "(string \<times> 'v) list"

definition dict_getitem :: "'v dict \<Rightarrow> string \<Rightarrow> error + 'v" where
  "dict_getitem d k = (case map_of d k of None \<Rightarrow> Inl (KeyError k) | Some v \<Rightarrow> Inr v)"

text \<open>Lines 10 to 17: the colours of the technologies.\<close>

definition color_dict :: "string dict" where
  "color_dict =
     [(''Solar Production'', ''#FFD700''),
      (''Battery Charge'', ''#ADD8E6''),
      (''Battery Discharge'', ''#ADD8E6''),
      (''Generator'', ''#FF4500''),
      (''Curtailment'', ''#FFA500''),
      (''Load'', ''#000000''),
      (''Lost Load'', ''#FF0000'')]"

text \<open>
  A table (a pandas \<^verbatim>\<open>DataFrame\<close>) has a number of rows and named columns; each
  column of a well-formed table holds one value per row. A column has a type: the
  columns listed in \<open>int64_columns\<close> hold 64-bit integers (the type a column of whole
  numbers gets when the file is read), every other column holds floating-point numbers.
\<close>

datatype dtype = Float64 | Int64

record dataframe =
  nrows :: nat
  columns :: "real list dict"
  int64_columns :: "string list"

definition dtype_of :: "dataframe \<Rightarrow> string \<Rightarrow> dtype" where
  "dtype_of df c = (if c \<in> set (int64_columns df) then Int64 else Float64)"

definition wf_dataframe :: "dataframe \<Rightarrow> bool" where
  "wf_dataframe df = list_all (\<lambda>cv. length (snd cv) = nrows df) (columns df)"

definition df_getitem :: "dataframe \<Rightarrow> string \<Rightarrow> error + real list" where
  "df_getitem df c = dict_getitem (columns df) c"

text \<open>
  A slice \<^verbatim>\<open>[start:stop]\<close> never raises: a negative bound counts from the end,
  and both bounds are clipped to the length.
\<close>

definition slice_bound :: "nat \<Rightarrow> int \<Rightarrow> nat" where
  "slice_bound n i = (if i < 0 then nat (max 0 (int n + i)) else min n (nat i))"

definition py_slice :: "int \<Rightarrow> int \<Rightarrow> 'a list \<Rightarrow> 'a list" where
  "py_slice start stop xs =
     (let a = slice_bound (length xs) start; b = slice_bound (length xs) stop
      in take (b - a) (drop a xs))"

definition iloc :: "dataframe \<Rightarrow> int \<Rightarrow> int \<Rightarrow> dataframe" where
  "iloc df start stop =
     \<lparr>nrows = slice_bound (nrows df) stop - slice_bound (nrows df) start,
      columns = map (\<lambda>cv. (fst cv, py_slice start stop (snd cv))) (columns df),
      int64_columns = int64_columns df\<rparr>"

subsection \<open>Arrays\<close>

definition np_zeros :: "nat \<Rightarrow> real list" where
  "np_zeros n = replicate n 0"

text \<open>
  Adding a column to an array (\<^verbatim>\<open>a + s\<close> and \<^verbatim>\<open>a += s\<close>) is elementwise
  and by position: the array has no row labels, so nothing is aligned. When the lengths
  differ it raises \<open>ValueError\<close>: the shapes cannot be broadcast, or, for a column
  of one row, the broadcast sum does not fit the column's one row label.
\<close>

definition add_arrays :: "real list \<Rightarrow> real list \<Rightarrow> error + real list" where
  "add_arrays a s = (if length a = length s then Inr (map2 (+) a s) else Inl ValueError)"

definition neg :: "real list \<Rightarrow> real list" where
  "neg a = map uminus a"

text \<open>
  Adding two columns of one table is elementwise, in the type of the columns. The sum of
  two columns of 64-bit integers is a column of 64-bit integers: it wraps around modulo
  \<open>2 ^ 64\<close> into the range from \<open>- 2 ^ 63\<close> up to, not including, \<open>2 ^ 63\<close>, and
  raises nothing. Every other sum is a floating-point sum; a column of integers added to
  a floating-point column or array is converted first, and the conversion is taken as
  exact.
\<close>

definition wrap_int64 :: "real \<Rightarrow> real" where
  "wrap_int64 r = real_of_int ((\<lfloor>r\<rfloor> + 2 ^ 63) mod 2 ^ 64 - 2 ^ 63)"

definition series_add :: "dtype \<Rightarrow> real list \<Rightarrow> dtype \<Rightarrow> real list \<Rightarrow> real list" where
  "series_add ta a tb b =
     (if ta = Int64 \<and> tb = Int64 then map wrap_int64 (map2 (+) a b) else map2 (+) a b)"

subsection \<open>The figure\<close>

datatype artist =
    FillBetween "nat list" "real list" "real list" string string real
  | Plot "nat list" "real list" string string nat "string option"

fun artist_label :: "artist \<Rightarrow> string" where
  "artist_label (FillBetween x y1 y2 label color alpha) = label"
| "artist_label (Plot x y label color linewidth linestyle) = label"

datatype legend_box = Legend string "real \<times> real" "bool option" "nat option"

record figure =
  figsize :: "nat \<times> nat"
  artists :: "artist list"
  xlabel :: string
  ylabel :: string
  title :: string
  legend :: "legend_box option"
  grid :: bool
  tight_layout :: bool

definition subplots :: "nat \<times> nat \<Rightarrow> figure" where
  "subplots sz =
     \<lparr>figsize = sz, artists = [], xlabel = [], ylabel = [], title = [],
      legend = None, grid = False, tight_layout = False\<rparr>"

definition fill_between ::
  "nat list \<Rightarrow> real list \<Rightarrow> real list \<Rightarrow> string \<Rightarrow> string \<Rightarrow> real \<Rightarrow> figure \<Rightarrow> figure" where
  "fill_between x y1 y2 label color alpha ax =
     ax\<lparr>artists := artists ax @ [FillBetween x y1 y2 label color alpha]\<rparr>"

definition plot ::
  "nat list \<Rightarrow> real list \<Rightarrow> string \<Rightarrow> string \<Rightarrow> nat \<Rightarrow> string option \<Rightarrow> figure \<Rightarrow> figure" where
  "plot x y label color linewidth linestyle ax =
     ax\<lparr>artists := artists ax @ [Plot x y label color linewidth linestyle]\<rparr>"

subsection \<open>Files and the terminal\<close>

record world =
  directories :: "string list"
  files :: "string \<rightharpoonup> figure"
  stdout :: "string list"

definition dirname :: "string \<Rightarrow> string" where
  "dirname p = rev (tl (dropWhile (\<lambda>c. c \<noteq> CHR ''/'') (rev p)))"

text \<open>Saving replaces whatever the path held; the directory has to exist.\<close>

definition savefig :: "string \<Rightarrow> figure \<Rightarrow> world \<Rightarrow> error + world" where
  "savefig path f w =
     (if dirname path \<in> set (directories w)
      then Inr (w\<lparr>files := (files w)(path \<mapsto> f)\<rparr>)
      else Inl (FileNotFoundError path))"

definition print :: "string \<Rightarrow> world \<Rightarrow> world" where
  "print s w = w\<lparr>stdout := stdout w @ [s]\<rparr>"

subsection \<open>Decimal numerals, for the title\<close>

definition digit_char :: "nat \<Rightarrow> char" where
  "digit_char d = ''0123456789'' ! d"

function str_nat :: "nat \<Rightarrow> string" where
  "str_nat n = (if n < 10 then [digit_char n] else str_nat (n div 10) @ [digit_char (n mod 10)])"
  by pat_completeness auto
termination
  by (relation "measure id") auto

declare str_nat.simps [simp del]

definition str_int :: "int \<Rightarrow> string" where
  "str_int i = (if i < 0 then CHR ''-'' # str_nat (nat (- i)) else str_nat (nat i))"

subsection \<open>\<^verbatim>\<open>create_dispatch_plot\<close>\<close>

definition hours_per_day :: nat where
  "hours_per_day = 24"

text \<open>Lines 23 to 26: the rows of the selected day.\<close>

definition daily_data :: "dataframe \<Rightarrow> int \<Rightarrow> dataframe" where
  "daily_data data day =
     (let start_idx = day * int hours_per_day;
          end_idx = start_idx + int hours_per_day
      in iloc data start_idx end_idx)"

text \<open>The local variables of the function: the axes and the two running totals.\<close>

record locals =
  ax :: figure
  cumulative_outflow :: "real list"
  cumulative_inflow :: "real list"

definition x :: "nat list" where
  "x = [0 ..< hours_per_day]"

text \<open>Lines 29 to 33.\<close>

definition init_locals :: locals where
  "init_locals =
     \<lparr>ax = subplots (12, 8),
      cumulative_outflow = np_zeros hours_per_day,
      cumulative_inflow = np_zeros hours_per_day\<rparr>"

text \<open>Lines 36 to 38.\<close>

definition plot_solar_production :: "dataframe \<Rightarrow> locals \<Rightarrow> error + locals" where
  "plot_solar_production daily st =
     bind_err (df_getitem daily ''Solar Production (kWh)'') (\<lambda>solar.
     bind_err (add_arrays (cumulative_outflow st) solar) (\<lambda>upper.
     bind_err (dict_getitem color_dict ''Solar Production'') (\<lambda>color.
     let st1 = st\<lparr>ax := fill_between x (cumulative_outflow st) upper
                            ''Solar Production'' color (1 / 2) (ax st)\<rparr> in
     bind_err (df_getitem daily ''Solar Production (kWh)'') (\<lambda>solar'.
     bind_err (add_arrays (cumulative_outflow st1) solar') (\<lambda>total.
     Inr (st1\<lparr>cumulative_outflow := total\<rparr>))))))"

text \<open>Lines 42 to 44.\<close>

definition plot_battery_charge :: "dataframe \<Rightarrow> locals \<Rightarrow> error + locals" where
  "plot_battery_charge daily st =
     bind_err (df_getitem daily ''Battery Charge (kWh)'') (\<lambda>charge.
     bind_err (add_arrays (cumulative_inflow st) charge) (\<lambda>lower.
     bind_err (dict_getitem color_dict ''Battery Charge'') (\<lambda>color.
     let st1 = st\<lparr>ax := fill_between x (neg (cumulative_inflow st)) (neg lower)
                            ''Battery Charging'' color (1 / 2) (ax st)\<rparr> in
     bind_err (df_getitem daily ''Battery Charge (kWh)'') (\<lambda>charge'.
     bind_err (add_arrays (cumulative_inflow st1) charge') (\<lambda>total.
     Inr (st1\<lparr>cumulative_inflow := total\<rparr>))))))"

text \<open>Lines 47 to 49.\<close>

definition plot_battery_discharge :: "dataframe \<Rightarrow> locals \<Rightarrow> error + locals" where
  "plot_battery_discharge daily st =
     bind_err (df_getitem daily ''Battery Discharge (kWh)'') (\<lambda>discharge.
     bind_err (add_arrays (cumulative_outflow st) discharge) (\<lambda>upper.
     bind_err (dict_getitem color_dict ''Battery Discharge'') (\<lambda>color.
     let st1 = st\<lparr>ax := fill_between x (cumulative_outflow st) upper
                            ''Battery Discharging'' color (1 / 2) (ax st)\<rparr> in
     bind_err (df_getitem daily ''Battery Discharge (kWh)'') (\<lambda>discharge'.
     bind_err (add_arrays (cumulative_outflow st1) discharge') (\<lambda>total.
     Inr (st1\<lparr>cumulative_outflow := total\<rparr>))))))"

text \<open>Lines 52 to 55.\<close>

definition plot_generator :: "dataframe \<Rightarrow> bool \<Rightarrow> locals \<Rightarrow> error + locals" where
  "plot_generator daily has_generator st =
     (if has_generator then
        bind_err (df_getitem daily ''Generator Production (kWh)'') (\<lambda>generator.
        bind_err (add_arrays (cumulative_outflow st) generator) (\<lambda>upper.
        bind_err (dict_getitem color_dict ''Generator'') (\<lambda>color.
        let st1 = st\<lparr>ax := fill_between x (cumulative_outflow st) upper
                               ''Generator'' color (1 / 2) (ax st)\<rparr> in
        bind_err (df_getitem daily ''Generator Production (kWh)'') (\<lambda>generator'.
        bind_err (add_arrays (cumulative_outflow st1) generator') (\<lambda>total.
        Inr (st1\<lparr>cumulative_outflow := total\<rparr>))))))
      else Inr st)"

text \<open>Lines 58 and 59: the last band; the running total is not advanced after it.\<close>

definition plot_lost_load :: "dataframe \<Rightarrow> locals \<Rightarrow> error + locals" where
  "plot_lost_load daily st =
     bind_err (df_getitem daily ''Lost Load (kWh)'') (\<lambda>lost.
     bind_err (add_arrays (cumulative_outflow st) lost) (\<lambda>upper.
     bind_err (dict_getitem color_dict ''Lost Load'') (\<lambda>color.
     Inr (st\<lparr>ax := fill_between x (cumulative_outflow st) upper
                       ''Lost Load'' color (1 / 2) (ax st)\<rparr>))))"

text \<open>Lines 29 to 59: the stacked bands, in the order of the source.\<close>

definition stack_layers :: "dataframe \<Rightarrow> bool \<Rightarrow> error + locals" where
  "stack_layers daily has_generator =
     bind_err (plot_solar_production daily init_locals) (\<lambda>st.
     bind_err (plot_battery_charge daily st) (\<lambda>st.
     bind_err (plot_battery_discharge daily st) (\<lambda>st.
     bind_err (plot_generator daily has_generator st) (\<lambda>st.
     plot_lost_load daily st))))"

text \<open>Line 62.\<close>

definition plot_load :: "dataframe \<Rightarrow> locals \<Rightarrow> error + locals" where
  "plot_load daily st =
     bind_err (df_getitem daily ''Load (kWh)'') (\<lambda>load.
     bind_err (dict_getitem color_dict ''Load'') (\<lambda>color.
     Inr (st\<lparr>ax := plot x load ''Load'' color 2 None (ax st)\<rparr>)))"

text \<open>
  Line 65. Both columns come from the same table, so they have the same row labels and
  their sum is by position, in the type of the two columns.
\<close>

definition plot_max_solar :: "dataframe \<Rightarrow> locals \<Rightarrow> error + locals" where
  "plot_max_solar daily st =
     bind_err (df_getitem daily ''Solar Production (kWh)'') (\<lambda>solar.
     bind_err (df_getitem daily ''Curtailment (kWh)'') (\<lambda>curtailment.
     Inr (st\<lparr>ax := plot x (series_add (dtype_of daily ''Solar Production (kWh)'') solar
                                (dtype_of daily ''Curtailment (kWh)'') curtailment)
                       ''Max Solar Production'' ''orange'' 2 (Some ''--'') (ax st)\<rparr>)))"

text \<open>Lines 68 to 76: labels, title, the legend (set twice) and the grid.\<close>

definition decorate :: "int \<Rightarrow> figure \<Rightarrow> figure" where
  "decorate day a =
     (let a1 = a\<lparr>xlabel := ''Hour''\<rparr>;
          a2 = a1\<lparr>ylabel := ''Energy (kWh)''\<rparr>;
          a3 = a2\<lparr>title := ''Dispatch Plot - Day '' @ str_int (day + 1)\<rparr>;
          a4 = a3\<lparr>legend := Some (Legend ''center left'' (1, 1 / 2) None None)\<rparr>;
          a5 = a4\<lparr>grid := True\<rparr>;
          a6 = a5\<lparr>legend := Some (Legend ''upper left'' (1 / 100, 99 / 100) (Some True) (Some 10))\<rparr>
      in a6\<lparr>tight_layout := True\<rparr>)"

text \<open>The whole function: lines 20 to 80.\<close>

definition create_dispatch_plot :: "dataframe \<Rightarrow> int \<Rightarrow> bool \<Rightarrow> world \<Rightarrow> error + world" where
  "create_dispatch_plot data day has_generator w =
     (let daily = daily_data data day in
      bind_err (stack_layers daily has_generator) (\<lambda>st.
      bind_err (plot_load daily st) (\<lambda>st.
      bind_err (plot_max_solar daily st) (\<lambda>st.
      bind_err (savefig ''results/dispatch_plot.png'' (decorate day (ax st)) w) (\<lambda>w1.
      Inr (print ''Dispatch plot saved as dispatch_plot.png in expected_values/results folder'' w1))))))"

text \<open>Line 84: the call the script makes.\<close>

definition main :: "dataframe \<Rightarrow> world \<Rightarrow> error + world" where
  "main data w = create_dispatch_plot data 0 False w"

section \<open>Example tables\<close>

text \<open>
  Tables whose columns are constant, for evaluating the function on concrete inputs:
  one with all seven columns, one with a larger battery charge, one without the
  generator column and one without the solar column.
\<close>

definition constant_table :: "nat \<Rightarrow> (string \<times> real) list \<Rightarrow> dataframe" where
  "constant_table n vs =
     \<lparr>nrows = n, columns = map (\<lambda>cv. (fst cv, replicate n (snd cv))) vs,
      int64_columns = []\<rparr>"

definition example_table :: "nat \<Rightarrow> dataframe" where
  "example_table n = constant_table n
     [(''Solar Production (kWh)'', 3),
      (''Battery Charge (kWh)'', 1),
      (''Battery Discharge (kWh)'', 2),
      (''Generator Production (kWh)'', 5),
      (''Curtailment (kWh)'', 1),
      (''Lost Load (kWh)'', 4),
      (''Load (kWh)'', 6)]"

definition charged_table :: "nat \<Rightarrow> dataframe" where
  "charged_table n = constant_table n
     [(''Solar Production (kWh)'', 3),
      (''Battery Charge (kWh)'', 7),
      (''Battery Discharge (kWh)'', 2),
      (''Generator Production (kWh)'', 5),
      (''Curtailment (kWh)'', 1),
      (''Lost Load (kWh)'', 4),
      (''Load (kWh)'', 6)]"

definition table_without_generator :: "nat \<Rightarrow> dataframe" where
  "table_without_generator n = constant_table n
     [(''Solar Production (kWh)'', 3),
      (''Battery Charge (kWh)'', 1),
      (''Battery Discharge (kWh)'', 2),
      (''Curtailment (kWh)'', 1),
      (''Lost Load (kWh)'', 4),
      (''Load (kWh)'', 6)]"

definition table_without_solar :: "nat \<Rightarrow> dataframe" where
  "table_without_solar n = constant_table n
     [(''Battery Charge (kWh)'', 1),
      (''Battery Discharge (kWh)'', 2),
      (''Generator Production (kWh)'', 5),
      (''Curtailment (kWh)'', 1),
      (''Lost Load (kWh)'', 4),
      (''Load (kWh)'', 6)]"

definition example_world :: world where
  "example_world = \<lparr>directories = [''results''], files = Map.empty, stdout = []\<rparr>"

text \<open>
  What the function is expected to compute for the second day of \<open>example_table 48\<close>:
  the local variables after the last band, the figure and the files and terminal
  afterwards.
\<close>

definition example_locals :: "bool \<Rightarrow> locals" where
  "example_locals g =
     \<lparr>ax = (subplots (12, 8))\<lparr>artists :=
        [FillBetween x (replicate 24 0) (replicate 24 3) ''Solar Production'' ''#FFD700'' (1 / 2),
         FillBetween x (replicate 24 0) (replicate 24 (- 1))
           ''Battery Charging'' ''#ADD8E6'' (1 / 2),
         FillBetween x (replicate 24 3) (replicate 24 5)
           ''Battery Discharging'' ''#ADD8E6'' (1 / 2)]
        @ (if g then [FillBetween x (replicate 24 5) (replicate 24 10)
                        ''Generator'' ''#FF4500'' (1 / 2)] else [])
        @ [FillBetween x (replicate 24 (if g then 10 else 5)) (replicate 24 (if g then 14 else 9))
             ''Lost Load'' ''#FF0000'' (1 / 2)]\<rparr>,
      cumulative_outflow = replicate 24 (if g then 10 else 5),
      cumulative_inflow = replicate 24 1\<rparr>"

definition example_figure :: "bool \<Rightarrow> figure" where
  "example_figure g =
     \<lparr>figsize = (12, 8),
      artists = artists (ax (example_locals g)) @
        [Plot x (replicate 24 6) ''Load'' ''#000000'' 2 None,
         Plot x (replicate 24 4) ''Max Solar Production'' ''orange'' 2 (Some ''--'')],
      xlabel = ''Hour'',
      ylabel = ''Energy (kWh)'',
      title = ''Dispatch Plot - Day 2'',
      legend = Some (Legend ''upper left'' (1 / 100, 99 / 100) (Some True) (Some 10)),
      grid = True,
      tight_layout = True\<rparr>"

definition example_output :: "bool \<Rightarrow> world" where
  "example_output g =
     \<lparr>directories = [''results''],
      files = [''results/dispatch_plot.png'' \<mapsto> example_figure g],
      stdout = [''Dispatch plot saved as dispatch_plot.png in expected_values/results folder'']\<rparr>"

text \<open>
  The same for the table with the larger battery charge, a world that already holds a
  file at the output path, and a table whose load column counts its rows.
\<close>

definition charged_locals :: "bool \<Rightarrow> locals" where
  "charged_locals g =
     (example_locals g)\<lparr>ax := (ax (example_locals g))\<lparr>artists :=
         (artists (ax (example_locals g)))
           [1 := FillBetween x (replicate 24 0) (replicate 24 (- 7))
                   ''Battery Charging'' ''#ADD8E6'' (1 / 2)]\<rparr>,
       cumulative_inflow := replicate 24 7\<rparr>"

definition used_world :: world where
  "used_world =
     \<lparr>directories = [''results''],
      files = [''results/dispatch_plot.png'' \<mapsto> subplots (12, 8)],
      stdout = [''earlier output'']\<rparr>"





section \<open>Basic facts\<close>

lemma bind_err_Inl: "bind_err (Inl e) f = Inl e"
  by (simp add: bind_err_def)

lemma bind_err_Inr: "bind_err (Inr v) f = f v"
  by (simp add: bind_err_def)

subsection \<open>Tables and slices\<close>

lemma map_of_map_snd:
  "map_of (map (\<lambda>cv. (fst cv, f (snd cv))) cs) c = map_option f (map_of cs c)"
  by (induction cs) auto

lemma df_getitem_iloc:
  "df_getitem (iloc df a b) c =
     (case map_of (columns df) c of None \<Rightarrow> Inl (KeyError c) | Some v \<Rightarrow> Inr (py_slice a b v))"
  by (simp add: df_getitem_def dict_getitem_def iloc_def map_of_map_snd split: option.splits)

lemma wf_column_length:
  "wf_dataframe df \<Longrightarrow> map_of (columns df) c = Some v \<Longrightarrow> length v = nrows df"
  by (auto simp: wf_dataframe_def list_all_iff dest!: map_of_SomeD)


lemma length_py_slice_short:
  assumes "0 \<le> d" "int (length v) < (d + 1) * 24"
  shows "length (py_slice (d * 24) (d * 24 + 24) v) < 24"
  using assms by (auto simp: py_slice_def slice_bound_def Let_def min_def)

lemma add_zeros: "length s = n \<Longrightarrow> map2 (+) (np_zeros n) s = s"
  by (auto simp: np_zeros_def list_eq_iff_nth_eq)

subsection \<open>The steps of the function, one equation each\<close>

lemma color_lookups:
  "dict_getitem color_dict ''Solar Production'' = Inr ''#FFD700''"
  "dict_getitem color_dict ''Battery Charge'' = Inr ''#ADD8E6''"
  "dict_getitem color_dict ''Battery Discharge'' = Inr ''#ADD8E6''"
  "dict_getitem color_dict ''Generator'' = Inr ''#FF4500''"
  "dict_getitem color_dict ''Lost Load'' = Inr ''#FF0000''"
  "dict_getitem color_dict ''Load'' = Inr ''#000000''"
  by (simp_all add: dict_getitem_def color_dict_def)

lemma plot_solar_production_eq:
  "plot_solar_production dd st =
     (case df_getitem dd ''Solar Production (kWh)'' of
        Inl e \<Rightarrow> Inl e
      | Inr s \<Rightarrow>
          if length (cumulative_outflow st) = length s
          then Inr (st\<lparr>ax := fill_between x (cumulative_outflow st)
                            (map2 (+) (cumulative_outflow st) s)
                            ''Solar Production'' ''#FFD700'' (1 / 2) (ax st),
                        cumulative_outflow := map2 (+) (cumulative_outflow st) s\<rparr>)
          else Inl ValueError)"
  by (simp add: plot_solar_production_def bind_err_def add_arrays_def color_lookups Let_def
           split: sum.splits)

lemma plot_battery_charge_eq:
  "plot_battery_charge dd st =
     (case df_getitem dd ''Battery Charge (kWh)'' of
        Inl e \<Rightarrow> Inl e
      | Inr b \<Rightarrow>
          if length (cumulative_inflow st) = length b
          then Inr (st\<lparr>ax := fill_between x (neg (cumulative_inflow st))
                            (neg (map2 (+) (cumulative_inflow st) b))
                            ''Battery Charging'' ''#ADD8E6'' (1 / 2) (ax st),
                        cumulative_inflow := map2 (+) (cumulative_inflow st) b\<rparr>)
          else Inl ValueError)"
  by (simp add: plot_battery_charge_def bind_err_def add_arrays_def color_lookups Let_def
           split: sum.splits)

lemma plot_battery_discharge_eq:
  "plot_battery_discharge dd st =
     (case df_getitem dd ''Battery Discharge (kWh)'' of
        Inl e \<Rightarrow> Inl e
      | Inr d \<Rightarrow>
          if length (cumulative_outflow st) = length d
          then Inr (st\<lparr>ax := fill_between x (cumulative_outflow st)
                            (map2 (+) (cumulative_outflow st) d)
                            ''Battery Discharging'' ''#ADD8E6'' (1 / 2) (ax st),
                        cumulative_outflow := map2 (+) (cumulative_outflow st) d\<rparr>)
          else Inl ValueError)"
  by (simp add: plot_battery_discharge_def bind_err_def add_arrays_def color_lookups Let_def
           split: sum.splits)

lemma plot_generator_eq:
  "plot_generator dd g st =
     (if g then
        (case df_getitem dd ''Generator Production (kWh)'' of
           Inl e \<Rightarrow> Inl e
         | Inr gn \<Rightarrow>
             if length (cumulative_outflow st) = length gn
             then Inr (st\<lparr>ax := fill_between x (cumulative_outflow st)
                               (map2 (+) (cumulative_outflow st) gn)
                               ''Generator'' ''#FF4500'' (1 / 2) (ax st),
                           cumulative_outflow := map2 (+) (cumulative_outflow st) gn\<rparr>)
             else Inl ValueError)
      else Inr st)"
  by (simp add: plot_generator_def bind_err_def add_arrays_def color_lookups Let_def
           split: sum.splits)

lemma plot_lost_load_eq:
  "plot_lost_load dd st =
     (case df_getitem dd ''Lost Load (kWh)'' of
        Inl e \<Rightarrow> Inl e
      | Inr l \<Rightarrow>
          if length (cumulative_outflow st) = length l
          then Inr (st\<lparr>ax := fill_between x (cumulative_outflow st)
                            (map2 (+) (cumulative_outflow st) l)
                            ''Lost Load'' ''#FF0000'' (1 / 2) (ax st)\<rparr>)
          else Inl ValueError)"
  by (simp add: plot_lost_load_def bind_err_def add_arrays_def color_lookups Let_def
           split: sum.splits)

lemmas step_eqs = plot_solar_production_eq plot_battery_charge_eq plot_battery_discharge_eq
  plot_generator_eq plot_lost_load_eq

lemma length_np_zeros: "length (np_zeros n) = n"
  by (simp add: np_zeros_def)

lemma stack_layers_ok:
  assumes "df_getitem dd ''Solar Production (kWh)'' = Inr s" "length s = hours_per_day"
    and "df_getitem dd ''Battery Charge (kWh)'' = Inr b" "length b = hours_per_day"
    and "df_getitem dd ''Battery Discharge (kWh)'' = Inr d" "length d = hours_per_day"
    and "g \<Longrightarrow> df_getitem dd ''Generator Production (kWh)'' = Inr gn \<and> length gn = hours_per_day"
    and "df_getitem dd ''Lost Load (kWh)'' = Inr l" "length l = hours_per_day"
  shows "stack_layers dd g =
     Inr \<lparr>ax = (subplots (12, 8))\<lparr>artists :=
             [FillBetween x (np_zeros hours_per_day) s ''Solar Production'' ''#FFD700'' (1 / 2),
              FillBetween x (neg (np_zeros hours_per_day)) (neg b)
                ''Battery Charging'' ''#ADD8E6'' (1 / 2),
              FillBetween x s (map2 (+) s d) ''Battery Discharging'' ''#ADD8E6'' (1 / 2)]
             @ (if g then [FillBetween x (map2 (+) s d) (map2 (+) (map2 (+) s d) gn)
                     ''Generator'' ''#FF4500'' (1 / 2)] else [])
             @ [FillBetween x (if g then map2 (+) (map2 (+) s d) gn else map2 (+) s d)
                  (map2 (+) (if g then map2 (+) (map2 (+) s d) gn else map2 (+) s d) l)
                  ''Lost Load'' ''#FF0000'' (1 / 2)]\<rparr>,
          cumulative_outflow = (if g then map2 (+) (map2 (+) s d) gn else map2 (+) s d),
          cumulative_inflow = b\<rparr>"
proof (cases g)
  case True
  with assms(7) have gn: "df_getitem dd ''Generator Production (kWh)'' = Inr gn"
    "length gn = hours_per_day" by simp_all
  show ?thesis using assms(1-6,8,9) gn True
    by (simp add: stack_layers_def step_eqs init_locals_def bind_err_Inr length_np_zeros
        add_zeros fill_between_def subplots_def)
next
  case False
  show ?thesis using assms(1-6,8,9) False
    by (simp add: stack_layers_def step_eqs init_locals_def bind_err_Inr length_np_zeros
        add_zeros fill_between_def subplots_def)
qed

lemma stack_layers_InrD:
  assumes "stack_layers dd g = Inr st"
  shows "\<exists>s b d l. df_getitem dd ''Solar Production (kWh)'' = Inr s \<and> length s = hours_per_day
     \<and> df_getitem dd ''Battery Charge (kWh)'' = Inr b \<and> length b = hours_per_day
     \<and> df_getitem dd ''Battery Discharge (kWh)'' = Inr d \<and> length d = hours_per_day
     \<and> df_getitem dd ''Lost Load (kWh)'' = Inr l \<and> length l = hours_per_day
     \<and> (g \<longrightarrow> (\<exists>gn. df_getitem dd ''Generator Production (kWh)'' = Inr gn \<and> length gn = hours_per_day))"
  using assms
  by (cases g)
   (auto simp add: stack_layers_def step_eqs init_locals_def bind_err_def length_np_zeros
      split: sum.splits if_splits)

lemma df_getitem_daily:
  "df_getitem (daily_data data day) c =
     (case map_of (columns data) c of
        None \<Rightarrow> Inl (KeyError c)
      | Some v \<Rightarrow> Inr (py_slice (day * 24) (day * 24 + 24) v))"
  by (simp add: daily_data_def hours_per_day_def df_getitem_iloc Let_def)

lemma int64_columns_daily_data: "int64_columns (daily_data data day) = int64_columns data"
  by (simp add: daily_data_def iloc_def Let_def)

lemma dtype_of_daily_data: "dtype_of (daily_data data day) c = dtype_of data c"
  by (simp add: dtype_of_def int64_columns_daily_data)

lemma series_add_float:
  "series_add Float64 a t b = map2 (+) a b"
  "series_add t a Float64 b = map2 (+) a b"
  by (simp_all add: series_add_def)


lemma slice_bound_le: "slice_bound n i \<le> n"
  by (auto simp: slice_bound_def)

lemma length_py_slice:
  "length (py_slice a b v) = slice_bound (length v) b - slice_bound (length v) a"
  using slice_bound_le [of "length v" b] by (simp add: py_slice_def Let_def)

lemma nrows_daily_full:
  assumes "0 \<le> day" "(day + 1) * 24 \<le> int n"
  shows "slice_bound n (day * 24 + 24) - slice_bound n (day * 24) = 24"
  using assms by (auto simp: slice_bound_def min_def)

lemma nrows_daily_short:
  assumes "0 \<le> day" "int n < (day + 1) * 24"
  shows "slice_bound n (day * 24 + 24) - slice_bound n (day * 24) < 24"
  using assms by (auto simp: slice_bound_def min_def)


lemma nrows_daily_data:
  "nrows (daily_data data day) =
     slice_bound (nrows data) (day * 24 + 24) - slice_bound (nrows data) (day * 24)"
  by (simp add: daily_data_def iloc_def hours_per_day_def Let_def)


lemma plot_load_eq:
  "plot_load dd st =
     (case df_getitem dd ''Load (kWh)'' of
        Inl e \<Rightarrow> Inl e
      | Inr ld \<Rightarrow> Inr (st\<lparr>ax := plot x ld ''Load'' ''#000000'' 2 None (ax st)\<rparr>))"
  by (simp add: plot_load_def bind_err_def color_lookups split: sum.splits)

lemma plot_max_solar_eq:
  "plot_max_solar dd st =
     (case df_getitem dd ''Solar Production (kWh)'' of
        Inl e \<Rightarrow> Inl e
      | Inr s \<Rightarrow>
         (case df_getitem dd ''Curtailment (kWh)'' of
            Inl e \<Rightarrow> Inl e
          | Inr c \<Rightarrow> Inr (st\<lparr>ax := plot x (series_add (dtype_of dd ''Solar Production (kWh)'') s
                                       (dtype_of dd ''Curtailment (kWh)'') c)
                                     ''Max Solar Production'' ''orange'' 2 (Some ''--'') (ax st)\<rparr>)))"
  by (simp add: plot_max_solar_def bind_err_def split: sum.splits)

lemma artists_decorate: "artists (decorate day a) = artists a"
  by (simp add: decorate_def Let_def)

lemma dirname_results: "dirname ''results/dispatch_plot.png'' = ''results''"
  by (simp add: dirname_def)

lemma create_dispatch_plot_InrD:
  assumes "create_dispatch_plot data day g w = Inr w'"
  shows "\<exists>st ld s c.
     stack_layers (daily_data data day) g = Inr st
     \<and> df_getitem (daily_data data day) ''Load (kWh)'' = Inr ld
     \<and> df_getitem (daily_data data day) ''Solar Production (kWh)'' = Inr s
     \<and> df_getitem (daily_data data day) ''Curtailment (kWh)'' = Inr c
     \<and> ''results'' \<in> set (directories w)
     \<and> w' = w\<lparr>files := (files w)(''results/dispatch_plot.png'' \<mapsto>
               decorate day ((ax st)\<lparr>artists := artists (ax st) @
                 [Plot x ld ''Load'' ''#000000'' 2 None,
                  Plot x (series_add (dtype_of (daily_data data day) ''Solar Production (kWh)'') s
                            (dtype_of (daily_data data day) ''Curtailment (kWh)'') c)
                    ''Max Solar Production'' ''orange'' 2 (Some ''--'')]\<rparr>)),
             stdout := stdout w @
               [''Dispatch plot saved as dispatch_plot.png in expected_values/results folder'']\<rparr>"
  using assms
  by (auto simp: create_dispatch_plot_def Let_def bind_err_def plot_load_eq plot_max_solar_eq
        savefig_def print_def plot_def dirname_results split: sum.splits if_splits)

lemma create_dispatch_plot_ok:
  assumes "stack_layers (daily_data data day) g = Inr st"
    and "df_getitem (daily_data data day) ''Load (kWh)'' = Inr ld"
    and "df_getitem (daily_data data day) ''Solar Production (kWh)'' = Inr s"
    and "df_getitem (daily_data data day) ''Curtailment (kWh)'' = Inr c"
    and "''results'' \<in> set (directories w)"
  shows "create_dispatch_plot data day g w =
     Inr (w\<lparr>files := (files w)(''results/dispatch_plot.png'' \<mapsto>
               decorate day ((ax st)\<lparr>artists := artists (ax st) @
                 [Plot x ld ''Load'' ''#000000'' 2 None,
                  Plot x (series_add (dtype_of (daily_data data day) ''Solar Production (kWh)'') s
                            (dtype_of (daily_data data day) ''Curtailment (kWh)'') c)
                    ''Max Solar Production'' ''orange'' 2 (Some ''--'')]\<rparr>)),
             stdout := stdout w @
               [''Dispatch plot saved as dispatch_plot.png in expected_values/results folder'']\<rparr>)"
  using assms
  by (simp add: create_dispatch_plot_def Let_def bind_err_def plot_load_eq plot_max_solar_eq
        savefig_def print_def plot_def dirname_results)

subsection \<open>The result of a successful run\<close>

lemma stack_layers_result:
  assumes ok: "stack_layers dd g = Inr st"
    and s: "df_getitem dd ''Solar Production (kWh)'' = Inr s"
    and b: "df_getitem dd ''Battery Charge (kWh)'' = Inr b"
    and d: "df_getitem dd ''Battery Discharge (kWh)'' = Inr d"
    and gn: "g \<longrightarrow> df_getitem dd ''Generator Production (kWh)'' = Inr gn"
    and l: "df_getitem dd ''Lost Load (kWh)'' = Inr l"
  shows "st = \<lparr>ax = (subplots (12, 8))\<lparr>artists :=
             [FillBetween x (np_zeros hours_per_day) s ''Solar Production'' ''#FFD700'' (1 / 2),
              FillBetween x (neg (np_zeros hours_per_day)) (neg b)
                ''Battery Charging'' ''#ADD8E6'' (1 / 2),
              FillBetween x s (map2 (+) s d) ''Battery Discharging'' ''#ADD8E6'' (1 / 2)]
             @ (if g then [FillBetween x (map2 (+) s d) (map2 (+) (map2 (+) s d) gn)
                     ''Generator'' ''#FF4500'' (1 / 2)] else [])
             @ [FillBetween x (if g then map2 (+) (map2 (+) s d) gn else map2 (+) s d)
                  (map2 (+) (if g then map2 (+) (map2 (+) s d) gn else map2 (+) s d) l)
                  ''Lost Load'' ''#FF0000'' (1 / 2)]\<rparr>,
          cumulative_outflow = (if g then map2 (+) (map2 (+) s d) gn else map2 (+) s d),
          cumulative_inflow = b\<rparr>"
    and "length s = hours_per_day" and "length b = hours_per_day"
    and "length d = hours_per_day" and "length l = hours_per_day"
    and "g \<Longrightarrow> length gn = hours_per_day"
proof -
  from stack_layers_InrD [OF ok] s b d gn l
  have len: "length s = hours_per_day" "length b = hours_per_day" "length d = hours_per_day"
    "length l = hours_per_day" "g \<longrightarrow> length gn = hours_per_day"
    by auto
  show "length s = hours_per_day" "length b = hours_per_day"
    "length d = hours_per_day" "length l = hours_per_day" "g \<Longrightarrow> length gn = hours_per_day"
    using len by simp_all
  from gn len(5)
  have gn': "g \<Longrightarrow> df_getitem dd ''Generator Production (kWh)'' = Inr gn \<and> length gn = hours_per_day"
    by simp
  from stack_layers_ok [OF s len(1) b len(2) d len(3) gn' l len(4)] ok
  show "st = \<lparr>ax = (subplots (12, 8))\<lparr>artists :=
             [FillBetween x (np_zeros hours_per_day) s ''Solar Production'' ''#FFD700'' (1 / 2),
              FillBetween x (neg (np_zeros hours_per_day)) (neg b)
                ''Battery Charging'' ''#ADD8E6'' (1 / 2),
              FillBetween x s (map2 (+) s d) ''Battery Discharging'' ''#ADD8E6'' (1 / 2)]
             @ (if g then [FillBetween x (map2 (+) s d) (map2 (+) (map2 (+) s d) gn)
                     ''Generator'' ''#FF4500'' (1 / 2)] else [])
             @ [FillBetween x (if g then map2 (+) (map2 (+) s d) gn else map2 (+) s d)
                  (map2 (+) (if g then map2 (+) (map2 (+) s d) gn else map2 (+) s d) l)
                  ''Lost Load'' ''#FF0000'' (1 / 2)]\<rparr>,
          cumulative_outflow = (if g then map2 (+) (map2 (+) s d) gn else map2 (+) s d),
          cumulative_inflow = b\<rparr>"
    by simp
qed

subsection \<open>Short days and missing columns\<close>

lemma length_daily_column:
  assumes "wf_dataframe data" "map_of (columns data) c = Some v"
  shows "length (py_slice (day * 24) (day * 24 + 24) v) = nrows (daily_data data day)"
  using assms by (simp add: length_py_slice nrows_daily_data wf_column_length)

lemma nrows_daily_data_full:
  assumes "0 \<le> day" "(day + 1) * 24 \<le> int (nrows data)"
  shows "nrows (daily_data data day) = 24"
  using assms by (simp add: nrows_daily_data nrows_daily_full)

lemma nrows_daily_data_short:
  assumes "0 \<le> day" "int (nrows data) < (day + 1) * 24"
  shows "nrows (daily_data data day) < 24"
  using assms by (simp add: nrows_daily_data nrows_daily_short)

lemma nrows_daily_data_empty: "nrows data = 0 \<Longrightarrow> nrows (daily_data data day) = 0"
  by (simp add: nrows_daily_data slice_bound_def)

lemma short_day_fails:
  assumes wf: "wf_dataframe data" and short: "nrows (daily_data data day) \<noteq> hours_per_day"
  shows "create_dispatch_plot data day g w =
     (case map_of (columns data) ''Solar Production (kWh)'' of
        None \<Rightarrow> Inl (KeyError ''Solar Production (kWh)'')
      | Some v \<Rightarrow> Inl ValueError)"
proof (cases "map_of (columns data) ''Solar Production (kWh)''")
  case None
  then show ?thesis
    by (simp add: create_dispatch_plot_def stack_layers_def plot_solar_production_eq
        df_getitem_daily bind_err_Inl)
next
  case (Some v)
  from length_daily_column [OF wf Some] short
  have "length (py_slice (day * 24) (day * 24 + 24) v) \<noteq> hours_per_day" by simp
  with Some show ?thesis
    by (simp add: create_dispatch_plot_def stack_layers_def plot_solar_production_eq
        df_getitem_daily bind_err_Inl init_locals_def length_np_zeros)
qed

lemma full_day_missing_column:
  assumes wf: "wf_dataframe data" and full: "nrows (daily_data data day) = hours_per_day"
    and c: "c \<in> {''Solar Production (kWh)'', ''Battery Charge (kWh)'',
              ''Battery Discharge (kWh)'', ''Lost Load (kWh)'', ''Load (kWh)'',
              ''Curtailment (kWh)''} \<or> (g \<and> c = ''Generator Production (kWh)'')"
    and none: "map_of (columns data) c = None"
  shows "\<exists>c'. map_of (columns data) c' = None
            \<and> create_dispatch_plot data day g w = Inl (KeyError c')"
proof -
  have len: "\<And>k v. map_of (columns data) k = Some v \<Longrightarrow>
      length (py_slice (day * 24) (day * 24 + 24) v) = hours_per_day"
    using length_daily_column [OF wf] full by simp
  show ?thesis
    using c none
    by (cases g)
      (auto simp: create_dispatch_plot_def stack_layers_def step_eqs plot_load_eq
        plot_max_solar_eq df_getitem_daily bind_err_def init_locals_def length_np_zeros len
        split: option.splits)
qed

subsection \<open>The example tables, evaluated\<close>

lemma dtype_of_constant_table: "dtype_of (constant_table n vs) c = Float64"
  by (simp add: dtype_of_def constant_table_def)

lemma dtype_of_example_table: "dtype_of (example_table n) c = Float64"
  by (simp add: example_table_def dtype_of_constant_table)

lemma wf_constant_table: "wf_dataframe (constant_table n vs)"
  by (simp add: wf_dataframe_def constant_table_def list_all_iff)

lemma df_getitem_constant_table:
  "df_getitem (daily_data (constant_table n vs) day) c =
     (case map_of vs c of
        None \<Rightarrow> Inl (KeyError c)
      | Some v \<Rightarrow> Inr (replicate (slice_bound n (day * 24 + 24) - slice_bound n (day * 24)) v))"
  using slice_bound_le [of n "day * 24 + 24"]
  by (simp add: df_getitem_daily constant_table_def map_of_map_snd py_slice_def Let_def
      split: option.splits)

lemma example_columns:
  "df_getitem (daily_data (example_table 48) 1) ''Solar Production (kWh)'' = Inr (replicate 24 3)"
  "df_getitem (daily_data (example_table 48) 1) ''Battery Charge (kWh)'' = Inr (replicate 24 1)"
  "df_getitem (daily_data (example_table 48) 1) ''Battery Discharge (kWh)'' = Inr (replicate 24 2)"
  "df_getitem (daily_data (example_table 48) 1) ''Generator Production (kWh)'' = Inr (replicate 24 5)"
  "df_getitem (daily_data (example_table 48) 1) ''Curtailment (kWh)'' = Inr (replicate 24 1)"
  "df_getitem (daily_data (example_table 48) 1) ''Lost Load (kWh)'' = Inr (replicate 24 4)"
  "df_getitem (daily_data (example_table 48) 1) ''Load (kWh)'' = Inr (replicate 24 6)"
  by (simp_all add: example_table_def df_getitem_constant_table slice_bound_def)

lemma example_stack:
  "stack_layers (daily_data (example_table 48) 1) g = Inr (example_locals g)"
  by (subst stack_layers_ok [where gn = "replicate 24 5", OF example_columns(1) _ example_columns(2) _
        example_columns(3) _ _ example_columns(6)])
     (simp_all add: hours_per_day_def example_columns example_locals_def np_zeros_def neg_def)

lemma example_run:
  "create_dispatch_plot (example_table 48) 1 g example_world = Inr (example_output g)"
  by (subst create_dispatch_plot_ok [OF example_stack example_columns(7) example_columns(1)
        example_columns(5)])
     (simp_all add: example_world_def example_output_def example_figure_def decorate_def
       example_locals_def subplots_def str_int_def str_nat.simps digit_char_def
       dtype_of_daily_data dtype_of_example_table series_add_float)

subsection \<open>Rows of a day and the saved figure\<close>



lemma saved_figure:
  assumes "create_dispatch_plot data day g w = Inr w'"
  shows "\<exists>st ld s c.
     stack_layers (daily_data data day) g = Inr st
     \<and> df_getitem (daily_data data day) ''Load (kWh)'' = Inr ld
     \<and> df_getitem (daily_data data day) ''Solar Production (kWh)'' = Inr s
     \<and> df_getitem (daily_data data day) ''Curtailment (kWh)'' = Inr c
     \<and> files w' ''results/dispatch_plot.png'' = Some (decorate day ((ax st)\<lparr>artists := artists (ax st) @
                 [Plot x ld ''Load'' ''#000000'' 2 None,
                  Plot x (series_add (dtype_of (daily_data data day) ''Solar Production (kWh)'') s
                            (dtype_of (daily_data data day) ''Curtailment (kWh)'') c)
                    ''Max Solar Production'' ''orange'' 2 (Some ''--'')]\<rparr>))"
proof -
  from create_dispatch_plot_InrD [OF assms] obtain st ld s c where
    a: "stack_layers (daily_data data day) g = Inr st"
     "df_getitem (daily_data data day) ''Load (kWh)'' = Inr ld"
     "df_getitem (daily_data data day) ''Solar Production (kWh)'' = Inr s"
     "df_getitem (daily_data data day) ''Curtailment (kWh)'' = Inr c"
    and w': "w' = w\<lparr>files := (files w)(''results/dispatch_plot.png'' \<mapsto>
               decorate day ((ax st)\<lparr>artists := artists (ax st) @
                 [Plot x ld ''Load'' ''#000000'' 2 None,
                  Plot x (series_add (dtype_of (daily_data data day) ''Solar Production (kWh)'') s
                            (dtype_of (daily_data data day) ''Curtailment (kWh)'') c)
                    ''Max Solar Production'' ''orange'' 2 (Some ''--'')]\<rparr>)),
             stdout := stdout w @
               [''Dispatch plot saved as dispatch_plot.png in expected_values/results folder'']\<rparr>"
    by blast
  have "files w' ''results/dispatch_plot.png'' = Some (decorate day ((ax st)\<lparr>artists := artists (ax st) @
                 [Plot x ld ''Load'' ''#000000'' 2 None,
                  Plot x (series_add (dtype_of (daily_data data day) ''Solar Production (kWh)'') s
                            (dtype_of (daily_data data day) ''Curtailment (kWh)'') c)
                    ''Max Solar Production'' ''orange'' 2 (Some ''--'')]\<rparr>))"
    by (subst w') simp
  with a show ?thesis by blast
qed

subsection \<open>More evaluations\<close>

lemma charged_columns:
  "df_getitem (daily_data (charged_table 48) 1) ''Solar Production (kWh)'' = Inr (replicate 24 3)"
  "df_getitem (daily_data (charged_table 48) 1) ''Battery Charge (kWh)'' = Inr (replicate 24 7)"
  "df_getitem (daily_data (charged_table 48) 1) ''Battery Discharge (kWh)'' = Inr (replicate 24 2)"
  "df_getitem (daily_data (charged_table 48) 1) ''Generator Production (kWh)'' = Inr (replicate 24 5)"
  "df_getitem (daily_data (charged_table 48) 1) ''Lost Load (kWh)'' = Inr (replicate 24 4)"
  by (simp_all add: charged_table_def df_getitem_constant_table slice_bound_def)

lemma charged_stack:
  "stack_layers (daily_data (charged_table 48) 1) g = Inr (charged_locals g)"
  by (subst stack_layers_ok [where gn = "replicate 24 5", OF charged_columns(1) _ charged_columns(2) _
        charged_columns(3) _ _ charged_columns(5)])
     (simp_all add: hours_per_day_def charged_columns charged_locals_def example_locals_def
        np_zeros_def neg_def)

lemma charged_agrees:
  "c \<noteq> ''Battery Charge (kWh)'' \<Longrightarrow>
     df_getitem (daily_data (example_table 48) 1) c = df_getitem (daily_data (charged_table 48) 1) c"
  by (simp add: example_table_def charged_table_def df_getitem_constant_table)

lemma used_run:
  "create_dispatch_plot (example_table 48) 1 g used_world =
     Inr (used_world\<lparr>files := (files used_world)(''results/dispatch_plot.png'' \<mapsto> example_figure g),
            stdout := stdout used_world @
              [''Dispatch plot saved as dispatch_plot.png in expected_values/results folder'']\<rparr>)"
  by (subst create_dispatch_plot_ok [OF example_stack example_columns(7) example_columns(1)
        example_columns(5)])
     (simp_all add: used_world_def example_figure_def decorate_def
       example_locals_def subplots_def str_int_def str_nat.simps digit_char_def
       dtype_of_daily_data dtype_of_example_table series_add_float)



subsection \<open>Columns of 64-bit integers\<close>









lemmas run_simps = create_dispatch_plot_def stack_layers_def step_eqs plot_load_eq
  plot_max_solar_eq bind_err_Inr bind_err_Inl init_locals_def df_getitem_constant_table
  slice_bound_def length_np_zeros hours_per_day_def savefig_def print_def dirname_results
  example_world_def dtype_of_daily_data dtype_of_constant_table series_add_float

section \<open>The claims\<close>

text \<open>
  C1, as amended. On a day for which the bands are drawn, every band of the outflow
  stack (solar, battery discharge, the generator when it is included, lost load) spans
  from the running outflow total to that total plus the layer's value, and the battery
  charge band spans from the negated inflow total to the negated sum of that total and
  the battery charge. The running total is advanced after every layer but the last one,
  lost load. So at every hour \<open>h\<close> the final outflow total is solar plus battery
  discharge plus the generator if it is included, and it is the upper edge of the lost
  load band that adds the lost load to this sum.
\<close>

theorem stacked_bands_and_totals:
  assumes "stack_layers (daily_data data day) g = Inr st"
    and "df_getitem (daily_data data day) ''Solar Production (kWh)'' = Inr s"
    and "df_getitem (daily_data data day) ''Battery Charge (kWh)'' = Inr b"
    and "df_getitem (daily_data data day) ''Battery Discharge (kWh)'' = Inr d"
    and "g \<longrightarrow> df_getitem (daily_data data day) ''Generator Production (kWh)'' = Inr gn"
    and "df_getitem (daily_data data day) ''Lost Load (kWh)'' = Inr l"
    and "h < hours_per_day"
  shows "artists (ax st) =
       [FillBetween x (np_zeros hours_per_day) (map2 (+) (np_zeros hours_per_day) s)
          ''Solar Production'' ''#FFD700'' (1 / 2),
        FillBetween x (neg (np_zeros hours_per_day)) (neg (map2 (+) (np_zeros hours_per_day) b))
          ''Battery Charging'' ''#ADD8E6'' (1 / 2),
        FillBetween x s (map2 (+) s d) ''Battery Discharging'' ''#ADD8E6'' (1 / 2)]
       @ (if g then [FillBetween x (map2 (+) s d) (map2 (+) (map2 (+) s d) gn)
                       ''Generator'' ''#FF4500'' (1 / 2)] else [])
       @ [FillBetween x (cumulative_outflow st) (map2 (+) (cumulative_outflow st) l)
            ''Lost Load'' ''#FF0000'' (1 / 2)]
     \<and> cumulative_outflow st ! h = s ! h + d ! h + (if g then gn ! h else 0)
     \<and> map2 (+) (cumulative_outflow st) l ! h
         = s ! h + d ! h + (if g then gn ! h else 0) + l ! h"
proof -
  note r = stack_layers_result [OF assms(1-6)]
  have st: "artists (ax st) =
       [FillBetween x (np_zeros hours_per_day) s ''Solar Production'' ''#FFD700'' (1 / 2),
        FillBetween x (neg (np_zeros hours_per_day)) (neg b)
          ''Battery Charging'' ''#ADD8E6'' (1 / 2),
        FillBetween x s (map2 (+) s d) ''Battery Discharging'' ''#ADD8E6'' (1 / 2)]
       @ (if g then [FillBetween x (map2 (+) s d) (map2 (+) (map2 (+) s d) gn)
                       ''Generator'' ''#FF4500'' (1 / 2)] else [])
       @ [FillBetween x (cumulative_outflow st) (map2 (+) (cumulative_outflow st) l)
            ''Lost Load'' ''#FF0000'' (1 / 2)]"
    and out: "cumulative_outflow st = (if g then map2 (+) (map2 (+) s d) gn else map2 (+) s d)"
    by (subst r(1), simp)+
  have z: "map2 (+) (np_zeros hours_per_day) s = s" "map2 (+) (np_zeros hours_per_day) b = b"
    using r(2,3) by (simp_all add: add_zeros)
  have tot: "cumulative_outflow st ! h = s ! h + d ! h + (if g then gn ! h else 0)"
    using r(2,4,6) assms(7) by (simp add: out)
  have top: "map2 (+) (cumulative_outflow st) l ! h
         = s ! h + d ! h + (if g then gn ! h else 0) + l ! h"
    using r(2,4,5,6) assms(7) by (simp add: out)
  show ?thesis using st tot top by (simp only: z simp_thms)
qed

text \<open>
  The theorem at the second day of the example table, with the generator, at hour 7:
  the final total is \<open>3 + 2 + 5\<close> and the lost load band ends at \<open>3 + 2 + 5 + 4\<close>.
\<close>

theorem stacked_bands_and_totals_witness:
  "stack_layers (daily_data (example_table 48) 1) True = Inr (example_locals True)
   \<and> cumulative_outflow (example_locals True) ! 7 = 3 + 2 + 5
   \<and> map2 (+) (cumulative_outflow (example_locals True)) (replicate 24 4) ! 7 = 3 + 2 + 5 + 4"
  using stacked_bands_and_totals [of "example_table 48" 1 True "example_locals True"
      "replicate 24 3" "replicate 24 1" "replicate 24 2" "replicate 24 5" "replicate 24 4" 7]
  by (simp add: example_stack example_columns hours_per_day_def)

text \<open>
  C1 as the specification states it fails: on the same day without the generator the
  final outflow total is 5 at hour 0, not the sum \<open>3 + 2 + 4\<close> of solar, battery
  discharge and lost load.
\<close>

theorem final_outflow_counterexample:
  "map_sum id cumulative_outflow (stack_layers (daily_data (example_table 48) 1) False)
     = Inr (replicate 24 5)
   \<and> df_getitem (daily_data (example_table 48) 1) ''Solar Production (kWh)''
       = Inr (replicate 24 3)
   \<and> df_getitem (daily_data (example_table 48) 1) ''Battery Discharge (kWh)''
       = Inr (replicate 24 2)
   \<and> df_getitem (daily_data (example_table 48) 1) ''Lost Load (kWh)''
       = Inr (replicate 24 4)
   \<and> replicate 24 5 ! 0 \<noteq> (replicate 24 3 ! 0 + replicate 24 2 ! 0 + replicate 24 4 ! 0 :: real)"
  by (simp add: example_stack example_columns example_locals_def)

text \<open>
  C2, as amended. When the table has fewer than \<open>(day + 1) * 24\<close> rows, for a day
  that is not negative, the function fails. Cutting the day out of the table does not
  fail: it gives fewer than 24 rows, and the first addition of the solar column to the
  array of 24 zeros raises \<open>ValueError\<close>. A table that has no solar column fails
  with \<open>KeyError\<close> instead.
\<close>

theorem short_series_fails:
  assumes "wf_dataframe data" "0 \<le> day" "int (nrows data) < (day + 1) * 24"
  shows "create_dispatch_plot data day g w =
     (case map_of (columns data) ''Solar Production (kWh)'' of
        None \<Rightarrow> Inl (KeyError ''Solar Production (kWh)'')
      | Some v \<Rightarrow> Inl ValueError)"
  using short_day_fails [OF assms(1)] nrows_daily_data_short [OF assms(2,3)]
  by (simp add: hours_per_day_def)

text \<open>The theorem at a table of 23 rows with all its columns.\<close>

theorem short_series_fails_witness:
  "wf_dataframe (example_table 23) \<and> (0::int) \<le> 0
   \<and> int (nrows (example_table 23)) < (0 + 1) * 24
   \<and> create_dispatch_plot (example_table 23) 0 False example_world = Inl ValueError"
  using short_series_fails [of "example_table 23" 0 False example_world]
  by (simp add: example_table_def wf_constant_table) (simp add: constant_table_def)

text \<open>
  C2 as the specification states it, for every table, fails: a table of 23 rows
  without the solar column fails with the error of a missing column.
\<close>

theorem missing_solar_counterexample:
  "create_dispatch_plot (table_without_solar 23) 0 False example_world
     = Inl (KeyError ''Solar Production (kWh)'')"
  by (simp add: run_simps table_without_solar_def)

text \<open>
  C3, as amended. On a day with its 24 rows, the function fails with \<open>KeyError\<close>
  for a missing column when a column that it reads is missing: solar production, battery
  charge, battery discharge, lost load, load, curtailment, and generator production
  only when the generator is included. An empty table fails as every short day does:
  with \<open>ValueError\<close> when it has the solar column, with \<open>KeyError\<close> otherwise.
  Nothing catches an error: it is the result of the function, and of the call the
  script makes.
\<close>

theorem missing_column_and_empty_series:
  assumes "wf_dataframe data"
  shows "(0 \<le> day \<and> (day + 1) * 24 \<le> int (nrows data)
          \<and> (c \<in> {''Solar Production (kWh)'', ''Battery Charge (kWh)'',
                   ''Battery Discharge (kWh)'', ''Lost Load (kWh)'', ''Load (kWh)'',
                   ''Curtailment (kWh)''} \<or> (g \<and> c = ''Generator Production (kWh)''))
          \<and> map_of (columns data) c = None
          \<longrightarrow> (\<exists>c'. map_of (columns data) c' = None
                 \<and> create_dispatch_plot data day g w = Inl (KeyError c')))
     \<and> (nrows data = 0 \<longrightarrow>
          create_dispatch_plot data day g w =
            (case map_of (columns data) ''Solar Production (kWh)'' of
               None \<Rightarrow> Inl (KeyError ''Solar Production (kWh)'')
             | Some v \<Rightarrow> Inl ValueError))
     \<and> (create_dispatch_plot data 0 False w = Inl e \<longrightarrow> main data w = Inl e)"
proof (intro conjI impI)
  assume h: "0 \<le> day \<and> (day + 1) * 24 \<le> int (nrows data)
          \<and> (c \<in> {''Solar Production (kWh)'', ''Battery Charge (kWh)'',
                   ''Battery Discharge (kWh)'', ''Lost Load (kWh)'', ''Load (kWh)'',
                   ''Curtailment (kWh)''} \<or> (g \<and> c = ''Generator Production (kWh)''))
          \<and> map_of (columns data) c = None"
  then have full: "nrows (daily_data data day) = hours_per_day"
    by (simp add: nrows_daily_data_full hours_per_day_def)
  from h have c: "c \<in> {''Solar Production (kWh)'', ''Battery Charge (kWh)'',
                   ''Battery Discharge (kWh)'', ''Lost Load (kWh)'', ''Load (kWh)'',
                   ''Curtailment (kWh)''} \<or> (g \<and> c = ''Generator Production (kWh)'')"
    by (rule conjunct1 [OF conjunct2 [OF conjunct2]])
  from h have none: "map_of (columns data) c = None"
    by (rule conjunct2 [OF conjunct2 [OF conjunct2]])
  show "\<exists>c'. map_of (columns data) c' = None
                 \<and> create_dispatch_plot data day g w = Inl (KeyError c')"
    by (rule full_day_missing_column [OF assms full c none])
next
  assume "nrows data = 0"
  then have "nrows (daily_data data day) \<noteq> hours_per_day"
    by (simp add: nrows_daily_data_empty hours_per_day_def)
  then show "create_dispatch_plot data day g w =
            (case map_of (columns data) ''Solar Production (kWh)'' of
               None \<Rightarrow> Inl (KeyError ''Solar Production (kWh)'')
             | Some v \<Rightarrow> Inl ValueError)"
    by (rule short_day_fails [OF assms])
next
  assume "create_dispatch_plot data 0 False w = Inl e"
  then show "main data w = Inl e"
    by (simp add: main_def)
qed

text \<open>
  The theorem at a table of 24 rows without the generator column, drawn with the
  generator, and at the empty table with all its columns.
\<close>

theorem missing_column_and_empty_series_witness:
  "wf_dataframe (table_without_generator 24)
   \<and> (\<exists>c'. map_of (columns (table_without_generator 24)) c' = None
         \<and> create_dispatch_plot (table_without_generator 24) 0 True example_world
             = Inl (KeyError c'))
   \<and> wf_dataframe (example_table 0)
   \<and> create_dispatch_plot (example_table 0) 0 False example_world = Inl ValueError
   \<and> main (example_table 0) example_world = Inl ValueError"
  using missing_column_and_empty_series [of "table_without_generator 24" 0
      "''Generator Production (kWh)''" True example_world ValueError]
    missing_column_and_empty_series [of "example_table 0" 0
      "''Generator Production (kWh)''" False example_world ValueError]
  by (simp add: wf_constant_table table_without_generator_def example_table_def)
     (simp add: constant_table_def)

text \<open>
  C3 as the specification states it fails: without the generator column and without
  the generator, the function succeeds and prints its message.
\<close>

theorem missing_generator_counterexample:
  "map_sum id stdout (create_dispatch_plot (table_without_generator 24) 0 False example_world)
     = Inr [''Dispatch plot saved as dispatch_plot.png in expected_values/results folder'']"
  by (simp add: run_simps table_without_generator_def)



text \<open>
  C5. Whenever the function succeeds, the bands of the saved figure are, in this order,
  solar production, battery charging, battery discharging, the generator only when it is
  included, and lost load; the two lines follow. The battery charge band is the second
  one and is drawn from the negated inflow total, which is zero, to the negated battery
  charge.
\<close>

theorem layer_order:
  assumes "create_dispatch_plot data day g w = Inr w'"
    and "df_getitem (daily_data data day) ''Battery Charge (kWh)'' = Inr b"
    and "h < hours_per_day"
  shows "\<exists>fig y1 y2. files w' ''results/dispatch_plot.png'' = Some fig
     \<and> map artist_label (artists fig) =
         [''Solar Production'', ''Battery Charging'', ''Battery Discharging'']
         @ (if g then [''Generator''] else [])
         @ [''Lost Load'', ''Load'', ''Max Solar Production'']
     \<and> artists fig ! 1 = FillBetween x y1 y2 ''Battery Charging'' ''#ADD8E6'' (1 / 2)
     \<and> y1 = neg (np_zeros hours_per_day)
     \<and> y2 = neg (map2 (+) (np_zeros hours_per_day) b)
     \<and> y1 ! h = 0 \<and> y2 ! h = - (b ! h)"
proof -
  from saved_figure [OF assms(1)] obtain st ld s c where
    st: "stack_layers (daily_data data day) g = Inr st"
    and s: "df_getitem (daily_data data day) ''Solar Production (kWh)'' = Inr s"
    and fig: "files w' ''results/dispatch_plot.png'' = Some (decorate day ((ax st)\<lparr>artists := artists (ax st) @
                 [Plot x ld ''Load'' ''#000000'' 2 None,
                  Plot x (series_add (dtype_of (daily_data data day) ''Solar Production (kWh)'') s
                            (dtype_of (daily_data data day) ''Curtailment (kWh)'') c)
                    ''Max Solar Production'' ''orange'' 2 (Some ''--'')]\<rparr>))"
    by blast
  from stack_layers_InrD [OF st] obtain d l gn where
    d: "df_getitem (daily_data data day) ''Battery Discharge (kWh)'' = Inr d"
    and l: "df_getitem (daily_data data day) ''Lost Load (kWh)'' = Inr l"
    and gn: "g \<longrightarrow> df_getitem (daily_data data day) ''Generator Production (kWh)'' = Inr gn"
    by blast
  note r = stack_layers_result [OF st s assms(2) d gn l]
  have z: "map2 (+) (np_zeros hours_per_day) b = b"
    using r(3) by (simp add: add_zeros)
  have labels: "map artist_label (artists (ax st)) =
      [''Solar Production'', ''Battery Charging'', ''Battery Discharging'']
         @ (if g then [''Generator''] else []) @ [''Lost Load'']"
    by (subst r(1)) simp
  have second: "artists (ax st) ! 1 = FillBetween x (neg (np_zeros hours_per_day)) (neg b)
      ''Battery Charging'' ''#ADD8E6'' (1 / 2)"
    by (subst r(1)) simp
  have len: "1 < length (artists (ax st))"
    by (subst r(1)) simp
  have edges: "neg (np_zeros hours_per_day) ! h = 0" "neg b ! h = - (b ! h)"
    using assms(3) r(3) by (simp_all add: neg_def np_zeros_def)
  show ?thesis
    using fig labels second len edges
    by (simp add: artists_decorate z nth_append)
qed

text \<open>
  The theorem at the second day of the example table, with the generator.
\<close>

theorem layer_order_witness:
  "create_dispatch_plot (example_table 48) 1 True example_world = Inr (example_output True)
   \<and> df_getitem (daily_data (example_table 48) 1) ''Battery Charge (kWh)'' = Inr (replicate 24 1)
   \<and> map artist_label (artists (example_figure True)) =
       [''Solar Production'', ''Battery Charging'', ''Battery Discharging'', ''Generator'',
        ''Lost Load'', ''Load'', ''Max Solar Production'']
   \<and> artists (example_figure True) ! 1 =
       FillBetween x (replicate 24 0) (replicate 24 (- 1)) ''Battery Charging'' ''#ADD8E6'' (1 / 2)"
  using layer_order [OF example_run [of True] example_columns(2), of 7]
  by (simp add: example_run example_columns example_figure_def example_locals_def subplots_def)






text \<open>
  C8. Whenever the function succeeds, the world afterwards is the world before with
  the figure stored at the path \<^verbatim>\<open>results/dispatch_plot.png\<close>, whatever the day
  and the generator flag are and whatever the path held before, and with the
  confirmation message appended to the terminal output. The directory of the path
  existed: the message is printed only after the figure is saved.
\<close>

theorem output_file_and_message:
  assumes "create_dispatch_plot data day g w = Inr w'"
  shows "''results'' \<in> set (directories w)
     \<and> (\<exists>fig. w' = w\<lparr>files := (files w)(''results/dispatch_plot.png'' \<mapsto> fig),
                      stdout := stdout w @
      [''Dispatch plot saved as dispatch_plot.png in expected_values/results folder'']\<rparr>)"
  using create_dispatch_plot_InrD [OF assms] by blast

text \<open>
  The theorem in a world that already holds a file at the output path: the file is
  replaced.
\<close>

theorem output_file_and_message_witness:
  "create_dispatch_plot (example_table 48) 1 False used_world =
     Inr (used_world\<lparr>files := (files used_world)(''results/dispatch_plot.png'' \<mapsto> example_figure False),
            stdout := stdout used_world @
              [''Dispatch plot saved as dispatch_plot.png in expected_values/results folder'']\<rparr>)
   \<and> files used_world ''results/dispatch_plot.png'' = Some (subplots (12, 8))"
  using output_file_and_message [OF used_run [of False]]
  by (simp add: used_run) (simp add: used_world_def)

text \<open>
  C9. The two running totals are independent. If two days agree on every column but
  the battery charge, their final outflow totals are equal; if they agree on the battery
  charge, their final inflow totals are equal; and the final inflow total is the battery
  charge column itself, the only layer added to it.
\<close>

theorem totals_are_independent:
  assumes "stack_layers d1 g = Inr st1" and "stack_layers d2 g = Inr st2"
  shows "((\<forall>c. c \<noteq> ''Battery Charge (kWh)'' \<longrightarrow> df_getitem d1 c = df_getitem d2 c)
           \<longrightarrow> cumulative_outflow st1 = cumulative_outflow st2)
     \<and> (df_getitem d1 ''Battery Charge (kWh)'' = df_getitem d2 ''Battery Charge (kWh)''
           \<longrightarrow> cumulative_inflow st1 = cumulative_inflow st2)
     \<and> df_getitem d1 ''Battery Charge (kWh)'' = Inr (cumulative_inflow st1)"
proof -
  from stack_layers_InrD [OF assms(1)] obtain s b d l gn where
    c1: "df_getitem d1 ''Solar Production (kWh)'' = Inr s"
      "df_getitem d1 ''Battery Charge (kWh)'' = Inr b"
      "df_getitem d1 ''Battery Discharge (kWh)'' = Inr d"
      "g \<longrightarrow> df_getitem d1 ''Generator Production (kWh)'' = Inr gn"
      "df_getitem d1 ''Lost Load (kWh)'' = Inr l"
    by blast
  from stack_layers_InrD [OF assms(2)] obtain s' b' d' l' gn' where
    c2: "df_getitem d2 ''Solar Production (kWh)'' = Inr s'"
      "df_getitem d2 ''Battery Charge (kWh)'' = Inr b'"
      "df_getitem d2 ''Battery Discharge (kWh)'' = Inr d'"
      "g \<longrightarrow> df_getitem d2 ''Generator Production (kWh)'' = Inr gn'"
      "df_getitem d2 ''Lost Load (kWh)'' = Inr l'"
    by blast
  note r1 = stack_layers_result [OF assms(1) c1]
  note r2 = stack_layers_result [OF assms(2) c2]
  have out1: "cumulative_outflow st1 = (if g then map2 (+) (map2 (+) s d) gn else map2 (+) s d)"
    and in1: "cumulative_inflow st1 = b"
    by (subst r1(1), simp)+
  have out2: "cumulative_outflow st2 = (if g then map2 (+) (map2 (+) s' d') gn' else map2 (+) s' d')"
    and in2: "cumulative_inflow st2 = b'"
    by (subst r2(1), simp)+
  have A: "(\<forall>c. c \<noteq> ''Battery Charge (kWh)'' \<longrightarrow> df_getitem d1 c = df_getitem d2 c)
           \<longrightarrow> cumulative_outflow st1 = cumulative_outflow st2"
  proof
    assume agree: "\<forall>c. c \<noteq> ''Battery Charge (kWh)'' \<longrightarrow> df_getitem d1 c = df_getitem d2 c"
    have "df_getitem d1 ''Solar Production (kWh)'' = df_getitem d2 ''Solar Production (kWh)''"
      "df_getitem d1 ''Battery Discharge (kWh)'' = df_getitem d2 ''Battery Discharge (kWh)''"
      "df_getitem d1 ''Generator Production (kWh)'' = df_getitem d2 ''Generator Production (kWh)''"
      using agree by simp_all
    with c1 c2 have "s = s'" "d = d'" "g \<longrightarrow> gn = gn'" by simp_all
    then show "cumulative_outflow st1 = cumulative_outflow st2"
      by (simp add: out1 out2)
  qed
  have B: "df_getitem d1 ''Battery Charge (kWh)'' = df_getitem d2 ''Battery Charge (kWh)''
           \<longrightarrow> cumulative_inflow st1 = cumulative_inflow st2"
    using c1(2) c2(2) by (simp add: in1 in2)
  have C: "df_getitem d1 ''Battery Charge (kWh)'' = Inr (cumulative_inflow st1)"
    using c1(2) by (simp add: in1)
  from A B C show ?thesis by (intro conjI)
qed

text \<open>
  The theorem at the example table and the table with the larger battery charge: the
  outflow totals are equal, the inflow totals are 1 and 7.
\<close>

theorem totals_are_independent_witness:
  "stack_layers (daily_data (example_table 48) 1) True = Inr (example_locals True)
   \<and> stack_layers (daily_data (charged_table 48) 1) True = Inr (charged_locals True)
   \<and> cumulative_outflow (example_locals True) = cumulative_outflow (charged_locals True)
   \<and> cumulative_inflow (example_locals True) = replicate 24 1
   \<and> cumulative_inflow (charged_locals True) = replicate 24 7
   \<and> df_getitem (daily_data (charged_table 48) 1) ''Battery Charge (kWh)''
       = Inr (cumulative_inflow (charged_locals True))"
proof -
  note t = totals_are_independent [OF example_stack [of True] charged_stack [of True]]
  note t' = totals_are_independent [OF charged_stack [of True] example_stack [of True]]
  have agree: "\<forall>c. c \<noteq> ''Battery Charge (kWh)'' \<longrightarrow>
      df_getitem (daily_data (example_table 48) 1) c
        = df_getitem (daily_data (charged_table 48) 1) c"
    by (intro allI impI) (rule charged_agrees)
  have out: "cumulative_outflow (example_locals True) = cumulative_outflow (charged_locals True)"
    by (rule mp [OF conjunct1 [OF t] agree])
  have charge: "df_getitem (daily_data (charged_table 48) 1) ''Battery Charge (kWh)''
       = Inr (cumulative_inflow (charged_locals True))"
    by (rule conjunct2 [OF conjunct2 [OF t']])
  have in1: "cumulative_inflow (example_locals True) = replicate 24 1"
    by (simp add: example_locals_def)
  have in2: "cumulative_inflow (charged_locals True) = replicate 24 7"
    by (simp add: charged_locals_def)
  from example_stack [of True] charged_stack [of True] out in1 in2 charge
  show ?thesis by (intro conjI)
qed

text \<open>
  C10. Whenever the function succeeds, the last line printed is the fixed message, which
  names the folder \<^verbatim>\<open>expected_values/results\<close>; the figure is stored at
  \<^verbatim>\<open>results/dispatch_plot.png\<close>, whose folder is another one, and nothing
  is stored in the folder the message names.
\<close>

theorem message_names_another_folder:
  assumes "create_dispatch_plot data day g w = Inr w'"
  shows "last (stdout w')
       = ''Dispatch plot saved as dispatch_plot.png in '' @ ''expected_values/results''
         @ '' folder''
     \<and> files w' ''results/dispatch_plot.png'' \<noteq> None
     \<and> files w' ''expected_values/results/dispatch_plot.png''
         = files w ''expected_values/results/dispatch_plot.png''
     \<and> dirname ''results/dispatch_plot.png'' \<noteq> ''expected_values/results''"
proof -
  from create_dispatch_plot_InrD [OF assms] obtain fig where
    w': "w' = w\<lparr>files := (files w)(''results/dispatch_plot.png'' \<mapsto> fig),
                      stdout := stdout w @
      [''Dispatch plot saved as dispatch_plot.png in expected_values/results folder'']\<rparr>"
    by blast
  show ?thesis by (subst (1 2 3) w') (simp add: dirname_results)
qed

text \<open>
  The theorem at the second day of the example table.
\<close>

theorem message_names_another_folder_witness:
  "create_dispatch_plot (example_table 48) 1 False example_world = Inr (example_output False)
   \<and> last (stdout (example_output False))
       = ''Dispatch plot saved as dispatch_plot.png in expected_values/results folder''
   \<and> files (example_output False) ''results/dispatch_plot.png'' = Some (example_figure False)
   \<and> files (example_output False) ''expected_values/results/dispatch_plot.png'' = None"
  using message_names_another_folder [OF example_run [of False]]
  by (simp add: example_run) (simp add: example_output_def)

end
